theory Spec2Isabelle
  imports Main
begin

section \<open>The gallery (lightbox) of script-optimized.js\<close>

text \<open>
  The gallery is two module-level variables (\<open>currentGallery\<close>, \<open>currentImageIndex\<close>),
  a cache \<open>DOM\<close> of elements looked up once at start, and seven functions that read and
  write them. The model is a record of everything these functions touch, and one HOL
  function for each of them, with the function's own name. A function that can raise
  returns \<open>Thrown\<close> with the state reached at the point of the raise, since a JavaScript
  exception does not undo the assignments made before it.
\<close>

subsection \<open>Numbers and values\<close>

text \<open>
  \<open>currentImageIndex\<close> is a JavaScript number. The gallery only ever computes it from
  integers with \<open>+\<close>, \<open>-\<close> and \<open>%\<close>, so the model has the integers and \<open>NaN\<close>
  (the result of \<open>%\<close> by zero). \<open>%\<close> is the remainder of the truncated division: its
  sign is the sign of the dividend. Negative zero is identified with zero: indexing,
  \<open>===\<close> and the counter template cannot tell them apart. \<open>Finite i\<close> stands for the
  double of value \<open>i\<close>, which is exact below \<open>2 ^ 53\<close>.
\<close>

datatype jsnum = Finite int | NaN

fun js_add :: "jsnum \<Rightarrow> jsnum \<Rightarrow> jsnum" where
  "js_add (Finite a) (Finite b) = Finite (a + b)"
| "js_add _ _ = NaN"

fun js_sub :: "jsnum \<Rightarrow> jsnum \<Rightarrow> jsnum" where
  "js_sub (Finite a) (Finite b) = Finite (a - b)"
| "js_sub _ _ = NaN"

fun js_rem :: "jsnum \<Rightarrow> jsnum \<Rightarrow> jsnum" where
  "js_rem (Finite a) (Finite n) =
     (if n = 0 then NaN else Finite (sgn a * (\<bar>a\<bar> mod \<bar>n\<bar>)))"
| "js_rem _ _ = NaN"

text \<open>The values \<open>openGallery\<close> can be called with.\<close>

datatype jsval =
    JUndefined
  | JNull
  | JBoolean bool
  | JNumber jsnum
  | JString string
  | JObject

text \<open>Decimal digits of a number, as a template literal prints it.\<close>

fun digits :: "nat \<Rightarrow> string" where
  "digits n =
     (if n < 10 then [''0123456789'' ! n]
      else digits (n div 10) @ [''0123456789'' ! (n mod 10)])"

declare digits.simps [simp del]

fun number_string :: "jsnum \<Rightarrow> string" where
  "number_string NaN = ''NaN''"
| "number_string (Finite i) =
     (if i < 0 then ''-'' @ digits (nat (- i)) else digits (nat i))"

text \<open>
  \<open>currentGallery[currentImageIndex]\<close>: the element, or \<open>undefined\<close> (here \<open>None\<close>)
  when the index is negative, too large or \<open>NaN\<close>.
\<close>

fun gallery_at :: "string list \<Rightarrow> jsnum \<Rightarrow> string option" where
  "gallery_at g (Finite i) =
     (if 0 \<le> i \<and> i < int (length g) then Some (g ! nat i) else None)"
| "gallery_at g NaN = None"

text \<open>\<open>setAttribute('src', v)\<close> stores the string form of \<open>v\<close>.\<close>

fun attr_string :: "string option \<Rightarrow> string" where
  "attr_string None = ''undefined''"
| "attr_string (Some v) = v"

text \<open>The text \<open>`${currentImageIndex + 1} / ${currentGallery.length}`\<close>.\<close>

definition counter_text :: "jsnum \<Rightarrow> string list \<Rightarrow> string" where
  "counter_text idx g =
     number_string (js_add idx (Finite 1)) @ '' / '' @ number_string (Finite (int (length g)))"

subsection \<open>The catalog\<close>

text \<open>
  An entry of \<open>portfolioData\<close>. \<open>openGallery\<close> tests the \<open>images\<close> property three ways
  (falsy, not an array, empty array), so the field records which of them applies.
\<close>

datatype images_field =
    ImagesMissing
  | ImagesNotArray
  | ImagesArray "string list"

record project =
  title :: "string option"
  images :: images_field

type_synonym catalog = "string \<Rightarrow> project option"

definition entry :: "string \<Rightarrow> string list \<Rightarrow> project" where
  "entry t imgs = \<lparr>title = Some t, images = ImagesArray imgs\<rparr>"

text \<open>
  A property every plain object inherits from \<open>Object.prototype\<close>: the lookup
  \<open>portfolioData[key]\<close> finds a function (or the prototype itself) there, which is truthy
  and has no \<open>images\<close>.
\<close>

definition inherited :: project where
  "inherited = \<lparr>title = None, images = ImagesMissing\<rparr>"

definition portfolioData :: catalog where
  "portfolioData = map_of
    [(''chassis-gallery'', entry ''Chassis Gallery''
        [''shell eco marathon chassis 2025.webp'',
         ''shell eco marathon chassis 2023.webp'',
         ''Formula Student chassis.webp'',
         ''Global chassis.webp'',
         ''Ever Chassis.webp'']),
     (''formula-chassis'', entry ''Formula Student Chassis''
        [''Photos/Formula Student Chassis/A.webp'',
         ''Photos/Formula Student Chassis/B.webp'',
         ''Photos/Formula Student Chassis/C.webp'',
         ''Photos/Formula Student Chassis/D.webp'',
         ''Photos/Formula Student Chassis/E.webp'',
         ''Photos/Formula Student Chassis/R.webp'']),
     (''ever'', entry ''EVER Monaco''
        [''Photos/EVER/1.webp'',
         ''Photos/EVER/2.webp'',
         ''Photos/EVER/C.webp'']),
     (''shell-eco'', entry ''Shell Eco-Marathon Vehicle''
        [''Photos/Shell Eco-Marathon Vehicle/1.webp'',
         ''Photos/Shell Eco-Marathon Vehicle/2.webp'',
         ''Photos/Shell Eco-Marathon Vehicle/3.webp'',
         ''Photos/Shell Eco-Marathon Vehicle/4.webp'',
         ''Photos/Shell Eco-Marathon Vehicle/5.webp'',
         ''Photos/Shell Eco-Marathon Vehicle/6.webp'',
         ''Photos/Shell Eco-Marathon Vehicle/7.webp'',
         ''Photos/Shell Eco-Marathon Vehicle/8.webp'',
         ''Photos/Shell Eco-Marathon Vehicle/9.webp'',
         ''Photos/Shell Eco-Marathon Vehicle/A.webp'']),
     (''achievements'', entry ''Engineering Achievements''
        [''Photos/Achievements/A-1.webp'',
         ''Photos/Achievements/A.webp'',
         ''Photos/Achievements/B.webp'',
         ''Photos/Achievements/C.webp'',
         ''Photos/Achievements/D.webp'',
         ''Photos/Achievements/E.webp'']),
     (''helmet'', entry ''Helmet Design & FEA''
        [''Photos/Helemt/A.webp'',
         ''Photos/Helemt/B.webp'',
         ''Photos/Helemt/C.webp'',
         ''Photos/Helemt/D.webp'',
         ''Photos/Helemt/FEA-Helmet.webp'']),
     (''manufacturing'', entry ''Manufacturing & Prototyping''
        [''Photos/Manufacturing & Prototyping/1.webp'',
         ''Photos/Manufacturing & Prototyping/2.webp'',
         ''Photos/Manufacturing & Prototyping/3.webp'',
         ''Photos/Manufacturing & Prototyping/4.webp'',
         ''Photos/Manufacturing & Prototyping/5.webp'']),
     (''sheet-metal'', entry ''Sheet Metal Analysis''
        [''Photos/Sheet Metal Analysis/1.jpeg'',
         ''Photos/Sheet Metal Analysis/2.jpeg'',
         ''Photos/Sheet Metal Analysis/3.jpeg'',
         ''Photos/Sheet Metal Analysis/4.jpeg'',
         ''Photos/Sheet Metal Analysis/Punch.jpeg'']),
     (''seating-chairs'', entry ''Sheet Metal - Seating Chairs''
        [''Photos/Sheet Metal -Seating chairs/1.png'',
         ''Photos/Sheet Metal -Seating chairs/2.jpg'',
         ''Photos/Sheet Metal -Seating chairs/3.jpg'',
         ''Photos/Sheet Metal -Seating chairs/5.png'',
         ''Photos/Sheet Metal -Seating chairs/6.png'',
         ''Photos/Sheet Metal -Seating chairs/A.jpg'',
         ''Photos/Sheet Metal -Seating chairs/B.png'',
         ''Photos/Sheet Metal -Seating chairs/C.png'',
         ''Photos/Sheet Metal -Seating chairs/D.png'',
         ''Photos/Sheet Metal -Seating chairs/E.png'',
         ''Photos/Sheet Metal -Seating chairs/G.jpg'',
         ''Photos/Sheet Metal -Seating chairs/H.png'',
         ''Photos/Sheet Metal -Seating chairs/W-1.png'',
         ''Photos/Sheet Metal -Seating chairs/W-2.jpg'',
         ''Photos/Sheet Metal -Seating chairs/W-4.jpg'',
         ''Photos/Sheet Metal -Seating chairs/W.jpg'']),
     (''solidworks-champion'', entry ''SolidWorks Champion''
        [''Photos/Solidwork Champion/1-optimized.jpg'',
         ''Photos/Solidwork Champion/2-optimized.jpg'',
         ''Photos/Solidwork Champion/3-optimized.jpg'']),
     (''injection-molding'', entry ''Injection Molding Design''
        [''Photos/Injection Molding Design/1.jpg'',
         ''Photos/Injection Molding Design/2.jpg'',
         ''Photos/Injection Molding Design/3.jpg'',
         ''Photos/Injection Molding Design/4.jpg'',
         ''Photos/Injection Molding Design/5.jpg'',
         ''Photos/Injection Molding Design/6.jpg'',
         ''Photos/Injection Molding Design/7.jpg'',
         ''Photos/Injection Molding Design/8.jpg'',
         ''Photos/Injection Molding Design/9.png'',
         ''Photos/Injection Molding Design/10.png'']),
     (''wall-mounted-motor'', entry ''Wall Mounted Motor Holder''
        [''Photos/Wall Mounted Motor Holder/1.png'',
         ''Photos/Wall Mounted Motor Holder/2.png'',
         ''Photos/Wall Mounted Motor Holder/3.png'',
         ''Photos/Wall Mounted Motor Holder/4.png'',
         ''Photos/Wall Mounted Motor Holder/5.png'',
         ''Photos/Wall Mounted Motor Holder/6.png'',
         ''Photos/Wall Mounted Motor Holder/7.png'',
         ''Photos/Wall Mounted Motor Holder/8.png'',
         ''Photos/Wall Mounted Motor Holder/9.png'']),
     (''constructor'', inherited),
     (''hasOwnProperty'', inherited),
     (''isPrototypeOf'', inherited),
     (''propertyIsEnumerable'', inherited),
     (''toLocaleString'', inherited),
     (''toString'', inherited),
     (''valueOf'', inherited),
     (''__proto__'', inherited),
     (''__defineGetter__'', inherited),
     (''__defineSetter__'', inherited),
     (''__lookupGetter__'', inherited),
     (''__lookupSetter__'', inherited)]"

subsection \<open>The page and the session\<close>

text \<open>
  The main image element: its \<open>src\<close> attribute (\<open>None\<close> when the attribute is not set)
  and the two loading hints every render writes.
\<close>

record image_element =
  src_attr :: "string option"
  fetchpriority :: "string option"
  decoding :: "string option"

text \<open>
  A thumbnail made by \<open>createThumbnails\<close>: its source, its alt text, whether it carries
  the class \<open>active\<close>, and the index its click handler passes to \<open>goToImage\<close>.
\<close>

record thumbnail =
  thumb_src :: string
  alt :: string
  active :: bool
  onclick_index :: nat

text \<open>
  The state. A field of the \<open>DOM\<close> cache is \<open>None\<close> when \<open>getElementById\<close> found no
  element. \<open>galleryModal\<close> holds whether the modal has the class \<open>active\<close>;
  \<open>galleryTitle\<close> and \<open>galleryCounter\<close> hold the text content; \<open>galleryThumbnails\<close>
  holds the thumbnails inside the strip. \<open>console\<close> is what \<open>console.error\<close> has
  printed, oldest first. \<open>pending\<close> holds, for each decode promise not yet settled, the
  \<open>nextSrc\<close> its continuation \<open>done\<close> has captured. \<open>pagehideListener\<close> says whether
  the \<open>pagehide\<close> listener is still registered: it is added with \<open>{ once: true }\<close>, so
  the browser removes it when it has run.
\<close>

record state =
  currentGallery :: "string list"
  currentImageIndex :: jsnum
  galleryModal :: "bool option"
  galleryTitle :: "string option"
  galleryMainImage :: "image_element option"
  galleryCounter :: "string option"
  galleryThumbnails :: "thumbnail list option"
  bodyOverflow :: string
  console :: "(string \<times> jsval list) list"
  pending :: "string option list"
  pagehideListener :: bool

datatype js_error = TypeError

datatype outcome = Normal state | Thrown js_error state

fun state_of :: "outcome \<Rightarrow> state" where
  "state_of (Normal s) = s"
| "state_of (Thrown e s) = s"

text \<open>Sequencing: the rest of a function body runs only if nothing was thrown.\<close>

fun and_then :: "outcome \<Rightarrow> (state \<Rightarrow> outcome) \<Rightarrow> outcome" where
  "and_then (Normal s) f = f s"
| "and_then (Thrown e s) f = Thrown e s"

text \<open>
  The state when \<open>init\<close> has run: the two module variables as they are declared, the
  five elements as \<open>cacheDOMElements\<close> found them on the page, the listeners of
  \<open>initPortfolioHandlers\<close> registered. The page itself is not part of the script; it is
  taken to load with no inline \<open>overflow\<close> on the body.
\<close>

definition initial_state ::
  "bool option \<Rightarrow> string option \<Rightarrow> image_element option \<Rightarrow> string option \<Rightarrow>
   thumbnail list option \<Rightarrow> state" where
  "initial_state modal ttl img counter thumbs =
     \<lparr>currentGallery = [], currentImageIndex = Finite 0,
      galleryModal = modal, galleryTitle = ttl, galleryMainImage = img,
      galleryCounter = counter, galleryThumbnails = thumbs,
      bodyOverflow = '''', console = [], pending = [], pagehideListener = True\<rparr>"

definition console_error :: "string \<Rightarrow> jsval list \<Rightarrow> state \<Rightarrow> state" where
  "console_error msg args s = s\<lparr>console := console s @ [(msg, args)]\<rparr>"

subsection \<open>Rendering\<close>

text \<open>
  The continuation \<open>done\<close> of \<open>updateGalleryImage\<close>: it writes the captured \<open>nextSrc\<close>
  into the image element, then the counter, read from the module variables as they are
  when it runs. The image element it captured is never null.
\<close>

definition done_swap :: "string option \<Rightarrow> state \<Rightarrow> outcome" where
  "done_swap nextSrc s =
     (let s1 = s\<lparr>galleryMainImage :=
                  map_option (\<lambda>imgEl. imgEl\<lparr>src_attr := Some (attr_string nextSrc)\<rparr>)
                    (galleryMainImage s)\<rparr>
      in case galleryCounter s1 of
           None \<Rightarrow> Thrown TypeError s1
         | Some _ \<Rightarrow>
             Normal (s1\<lparr>galleryCounter :=
                          Some (counter_text (currentImageIndex s1) (currentGallery s1))\<rparr>))"

text \<open>The same-source branch: only the counter is written.\<close>

definition write_counter :: "state \<Rightarrow> outcome" where
  "write_counter s =
     (case galleryCounter s of
        None \<Rightarrow> Thrown TypeError s
      | Some _ \<Rightarrow>
          Normal (s\<lparr>galleryCounter :=
                      Some (counter_text (currentImageIndex s) (currentGallery s))\<rparr>))"

text \<open>The loop over the thumbnails at the end of \<open>updateGalleryImage\<close>.\<close>

definition toggle_active :: "jsnum \<Rightarrow> thumbnail list \<Rightarrow> thumbnail list" where
  "toggle_active idx ts =
     map (\<lambda>(i, thumb). thumb\<lparr>active := (Finite (int i) = idx)\<rparr>) (enumerate 0 ts)"

definition update_thumbnails :: "state \<Rightarrow> outcome" where
  "update_thumbnails s =
     (case galleryThumbnails s of
        None \<Rightarrow> Thrown TypeError s
      | Some ts \<Rightarrow>
          Normal (s\<lparr>galleryThumbnails := Some (toggle_active (currentImageIndex s) ts)\<rparr>))"

text \<open>\<open>imgEl.getAttribute('src') || ''\<close>: the source the image element shows.\<close>

definition currentAttrSrc :: "image_element \<Rightarrow> string" where
  "currentAttrSrc imgEl = (case src_attr imgEl of None \<Rightarrow> [] | Some a \<Rightarrow> a)"

text \<open>
  \<open>updateGalleryImage\<close>. The parameter \<open>dec\<close> says whether images have a \<open>decode\<close>
  method in this browser: if so the continuation is registered on the promise and waits
  in \<open>pending\<close>; if not it runs at once.
\<close>

definition updateGalleryImage :: "bool \<Rightarrow> state \<Rightarrow> outcome" where
  "updateGalleryImage dec s =
     (case galleryMainImage s of
        None \<Rightarrow> Normal s
      | Some imgEl \<Rightarrow>
          (let nextSrc = gallery_at (currentGallery s) (currentImageIndex s);
               s1 = s\<lparr>galleryMainImage :=
                        Some (imgEl\<lparr>fetchpriority := Some ''high'',
                                    decoding := Some ''async''\<rparr>)\<rparr>
           in and_then
                (if Some (currentAttrSrc imgEl) = nextSrc then write_counter s1
                 else if dec then Normal (s1\<lparr>pending := pending s1 @ [nextSrc]\<rparr>)
                 else done_swap nextSrc s1)
                update_thumbnails))"

text \<open>
  A decode promise settles: \<open>preImg.decode().then(done).catch(() => done())\<close>.
  On success \<open>done\<close> runs, and runs again from the \<open>catch\<close> if it threw; on failure
  only the \<open>catch\<close> runs it.
\<close>

definition settle :: "bool \<Rightarrow> string option \<Rightarrow> state \<Rightarrow> outcome" where
  "settle ok nextSrc s =
     (if ok then
        (case done_swap nextSrc s of
           Normal s' \<Rightarrow> Normal s'
         | Thrown e s' \<Rightarrow> done_swap nextSrc s')
      else done_swap nextSrc s)"

definition new_thumbnails :: "string list \<Rightarrow> thumbnail list" where
  "new_thumbnails g =
     map (\<lambda>(index, src).
            \<lparr>thumb_src = src,
             alt = ''Thumbnail '' @ number_string (Finite (int index + 1)),
             active = False,
             onclick_index = index\<rparr>)
         (enumerate 0 g)"

definition createThumbnails :: "state \<Rightarrow> outcome" where
  "createThumbnails s =
     (case galleryThumbnails s of
        None \<Rightarrow> Thrown TypeError s
      | Some _ \<Rightarrow> Normal (s\<lparr>galleryThumbnails := Some (new_thumbnails (currentGallery s))\<rparr>))"

subsection \<open>The gallery functions\<close>

definition openGallery :: "bool \<Rightarrow> catalog \<Rightarrow> jsval \<Rightarrow> state \<Rightarrow> outcome" where
  "openGallery dec pd projectKey s =
     (case projectKey of
        JString k \<Rightarrow>
          if k = [] then Normal (console_error ''Invalid project key:'' [projectKey] s)
          else
            (case pd k of
               None \<Rightarrow> Normal (console_error ''Project not found:'' [projectKey] s)
             | Some project \<Rightarrow>
                 (case images project of
                    ImagesArray imgs \<Rightarrow>
                      if imgs = [] then
                        Normal (console_error ''Project has no images:'' [projectKey] s)
                      else if galleryModal s = None \<or> galleryTitle s = None then
                        Normal (console_error ''Gallery modal elements not found'' [] s)
                      else
                        and_then
                          (updateGalleryImage dec
                             (s\<lparr>currentGallery := imgs,
                                currentImageIndex := Finite 0,
                                galleryTitle :=
                                  Some (case title project of None \<Rightarrow> '''' | Some t \<Rightarrow> t),
                                galleryModal := Some True,
                                bodyOverflow := ''hidden''\<rparr>))
                          createThumbnails
                  | _ \<Rightarrow> Normal (console_error ''Project has no images:'' [projectKey] s)))
      | _ \<Rightarrow> Normal (console_error ''Invalid project key:'' [projectKey] s))"

definition goToImage :: "bool \<Rightarrow> jsnum \<Rightarrow> state \<Rightarrow> outcome" where
  "goToImage dec index s = updateGalleryImage dec (s\<lparr>currentImageIndex := index\<rparr>)"

definition nextImage :: "bool \<Rightarrow> state \<Rightarrow> outcome" where
  "nextImage dec s =
     updateGalleryImage dec
       (s\<lparr>currentImageIndex :=
            js_rem (js_add (currentImageIndex s) (Finite 1))
                   (Finite (int (length (currentGallery s))))\<rparr>)"

definition prevImage :: "bool \<Rightarrow> state \<Rightarrow> outcome" where
  "prevImage dec s =
     updateGalleryImage dec
       (s\<lparr>currentImageIndex :=
            js_rem (js_add (js_sub (currentImageIndex s) (Finite 1))
                           (Finite (int (length (currentGallery s)))))
                   (Finite (int (length (currentGallery s))))\<rparr>)"

definition closeGallery :: "state \<Rightarrow> outcome" where
  "closeGallery s =
     (case galleryModal s of
        None \<Rightarrow> Thrown TypeError s
      | Some _ \<Rightarrow> Normal (s\<lparr>galleryModal := Some False, bodyOverflow := ''''\<rparr>))"

subsection \<open>The listeners of initPortfolioHandlers\<close>

text \<open>
  One constructor for each listener the script installs, with what the listener reads
  from the event: the \<open>data-project\<close> attribute of the clicked project, the position of
  the clicked thumbnail in the strip, the key. \<open>DecodeSettled k ok\<close> is the promise of
  the \<open>k\<close>-th pending decode resolving (\<open>ok\<close>) or rejecting. \<open>PageHide\<close> is the page's
  \<open>pagehide\<close> event: its listener runs \<open>closeGallery\<close> inside \<open>try\<close>/\<open>catch\<close> the first
  time the event fires and is gone after that.
\<close>

datatype event =
    ClickProject "string option"
  | ClickClose
  | ClickNext
  | ClickPrev
  | ClickBackdrop
  | ClickThumbnail nat
  | KeyDown string
  | PageHide
  | DecodeSettled nat bool

definition handle :: "bool \<Rightarrow> catalog \<Rightarrow> event \<Rightarrow> state \<Rightarrow> outcome" where
  "handle dec pd ev s =
     (case ev of
        ClickProject attr \<Rightarrow>
          (case galleryModal s of
             None \<Rightarrow> Thrown TypeError s
           | Some a \<Rightarrow>
               if a then Normal s
               else (case attr of
                       None \<Rightarrow> Normal s
                     | Some projectKey \<Rightarrow>
                         if projectKey \<noteq> [] \<and> pd projectKey \<noteq> None
                         then openGallery dec pd (JString projectKey) s
                         else Normal s))
      | ClickClose \<Rightarrow> closeGallery s
      | ClickNext \<Rightarrow> nextImage dec s
      | ClickPrev \<Rightarrow> prevImage dec s
      | ClickBackdrop \<Rightarrow>
          (case galleryModal s of
             None \<Rightarrow> Normal s
           | Some _ \<Rightarrow> closeGallery s)
      | ClickThumbnail k \<Rightarrow>
          (case galleryThumbnails s of
             None \<Rightarrow> Normal s
           | Some ts \<Rightarrow>
               if k < length ts
               then goToImage dec (Finite (int (onclick_index (ts ! k)))) s
               else Normal s)
      | KeyDown key \<Rightarrow>
          if galleryModal s \<noteq> Some True then Normal s
          else if key = ''Escape'' then closeGallery s
          else if key = ''ArrowLeft'' then prevImage dec s
          else if key = ''ArrowRight'' then nextImage dec s
          else Normal s
      | PageHide \<Rightarrow>
          if pagehideListener s
          then (case closeGallery (s\<lparr>pagehideListener := False\<rparr>) of
                  Normal s' \<Rightarrow> Normal s'
                | Thrown e s' \<Rightarrow> Normal s')
          else Normal s
      | DecodeSettled k ok \<Rightarrow>
          if k < length (pending s)
          then settle ok (pending s ! k)
                 (s\<lparr>pending := take k (pending s) @ drop (Suc k) (pending s)\<rparr>)
          else Normal s)"

text \<open>
  A run of the page: the listeners fire one after the other, each on the state the one
  before left, whether it returned or threw.
\<close>

fun run :: "bool \<Rightarrow> catalog \<Rightarrow> event list \<Rightarrow> state \<Rightarrow> state" where
  "run dec pd [] s = s"
| "run dec pd (ev # evs) s = run dec pd evs (state_of (handle dec pd ev s))"

subsection \<open>Sequences of navigation, the index invariant, example pages\<close>

text \<open>
  The three navigation functions called one after the other, as the buttons, the keys
  and the thumbnails call them.
\<close>

datatype nav = Next | Prev | GoTo jsnum

fun navigate :: "bool \<Rightarrow> nav list \<Rightarrow> state \<Rightarrow> state" where
  "navigate dec [] s = s"
| "navigate dec (Next # ns) s = navigate dec ns (state_of (nextImage dec s))"
| "navigate dec (Prev # ns) s = navigate dec ns (state_of (prevImage dec s))"
| "navigate dec (GoTo i # ns) s = navigate dec ns (state_of (goToImage dec i s))"

text \<open>The index points into the gallery: \<open>0 \<le> currentImageIndex < currentGallery.length\<close>.\<close>

definition index_in_range :: "state \<Rightarrow> bool" where
  "index_in_range s =
     (case currentImageIndex s of
        Finite i \<Rightarrow> 0 \<le> i \<and> i < int (length (currentGallery s))
      | NaN \<Rightarrow> False)"

text \<open>
  Two pages to evaluate the functions on: one with the five elements (the modal hidden,
  the image without \<open>src\<close>, the texts and the strip empty), one with none of them; and
  the first page after \<open>openGallery('ever')\<close> in a browser without \<open>decode\<close>.
\<close>

definition page :: state where
  "page = initial_state (Some False) (Some [])
            (Some \<lparr>src_attr = None, fetchpriority = None, decoding = None\<rparr>)
            (Some []) (Some [])"

definition no_hooks :: state where
  "no_hooks = initial_state None None None None None"

definition ever_open :: state where
  "ever_open = state_of (openGallery False portfolioData (JString ''ever'') page)"


section \<open>Properties\<close>

subsection \<open>What rendering and navigation leave alone\<close>

lemma updateGalleryImage_session:
  "currentGallery (state_of (updateGalleryImage dec s)) = currentGallery s"
  "currentImageIndex (state_of (updateGalleryImage dec s)) = currentImageIndex s"
  "galleryModal (state_of (updateGalleryImage dec s)) = galleryModal s"
  "bodyOverflow (state_of (updateGalleryImage dec s)) = bodyOverflow s"
  "console (state_of (updateGalleryImage dec s)) = console s"
  "pagehideListener (state_of (updateGalleryImage dec s)) = pagehideListener s"
  by (auto simp: updateGalleryImage_def Let_def write_counter_def done_swap_def
      update_thumbnails_def split: option.splits)

lemma nextImage_session:
  "currentGallery (state_of (nextImage dec s)) = currentGallery s"
  "galleryModal (state_of (nextImage dec s)) = galleryModal s"
  "bodyOverflow (state_of (nextImage dec s)) = bodyOverflow s"
  "pagehideListener (state_of (nextImage dec s)) = pagehideListener s"
  "currentImageIndex (state_of (nextImage dec s)) =
     js_rem (js_add (currentImageIndex s) (Finite 1)) (Finite (int (length (currentGallery s))))"
  by (simp_all add: nextImage_def updateGalleryImage_session)

lemma prevImage_session:
  "currentGallery (state_of (prevImage dec s)) = currentGallery s"
  "galleryModal (state_of (prevImage dec s)) = galleryModal s"
  "bodyOverflow (state_of (prevImage dec s)) = bodyOverflow s"
  "pagehideListener (state_of (prevImage dec s)) = pagehideListener s"
  "currentImageIndex (state_of (prevImage dec s)) =
     js_rem (js_add (js_sub (currentImageIndex s) (Finite 1))
               (Finite (int (length (currentGallery s)))))
            (Finite (int (length (currentGallery s))))"
  by (simp_all add: prevImage_def updateGalleryImage_session)

lemma goToImage_session:
  "currentGallery (state_of (goToImage dec i s)) = currentGallery s"
  "galleryModal (state_of (goToImage dec i s)) = galleryModal s"
  "bodyOverflow (state_of (goToImage dec i s)) = bodyOverflow s"
  "pagehideListener (state_of (goToImage dec i s)) = pagehideListener s"
  "currentImageIndex (state_of (goToImage dec i s)) = i"
  by (simp_all add: goToImage_def updateGalleryImage_session)

lemma navigate_session:
  "currentGallery (navigate dec ns s) = currentGallery s"
  "galleryModal (navigate dec ns s) = galleryModal s"
  "bodyOverflow (navigate dec ns s) = bodyOverflow s"
  "pagehideListener (navigate dec ns s) = pagehideListener s"
  by (induction dec ns s rule: navigate.induct)
     (simp_all add: nextImage_session prevImage_session goToImage_session)

lemma ever_open_session:
  "currentGallery ever_open =
     [''Photos/EVER/1.webp'', ''Photos/EVER/2.webp'', ''Photos/EVER/C.webp'']"
  "currentImageIndex ever_open = Finite 0"
  "galleryModal ever_open = Some True"
  by (simp_all add: ever_open_def openGallery_def portfolioData_def entry_def page_def
      initial_state_def updateGalleryImage_session createThumbnails_def
      updateGalleryImage_def done_swap_def update_thumbnails_def Let_def currentAttrSrc_def)

lemma ever_open_lock:
  "bodyOverflow ever_open = ''hidden''"
  "pagehideListener ever_open"
  by (simp_all add: ever_open_def openGallery_def portfolioData_def entry_def page_def
      initial_state_def updateGalleryImage_session createThumbnails_def
      updateGalleryImage_def done_swap_def update_thumbnails_def Let_def currentAttrSrc_def)

subsection \<open>Index arithmetic\<close>

text \<open>On a dividend that is not negative, \<open>%\<close> is the mathematical \<open>mod\<close>.\<close>

lemma js_rem_nonneg:
  "0 \<le> a \<Longrightarrow> 0 < n \<Longrightarrow> js_rem (Finite a) (Finite n) = Finite (a mod n)"
  by (cases "a = 0") simp_all

lemma next_index:
  assumes "currentImageIndex s = Finite i" "0 \<le> i" "currentGallery s \<noteq> []"
  shows "currentImageIndex (state_of (nextImage dec s)) =
           Finite ((i + 1) mod int (length (currentGallery s)))"
  using assms by (simp add: nextImage_session js_rem_nonneg)

lemma prev_index:
  assumes "currentImageIndex s = Finite i" "0 \<le> i" "currentGallery s \<noteq> []"
  shows "currentImageIndex (state_of (prevImage dec s)) =
           Finite ((i - 1) mod int (length (currentGallery s)))"
proof -
  let ?n = "int (length (currentGallery s))"
  have n: "0 < ?n" using assms(3) by simp
  then have "0 \<le> i - 1 + ?n" using assms(2) by linarith
  then have "js_rem (Finite (i - 1 + ?n)) (Finite ?n) = Finite ((i - 1 + ?n) mod ?n)"
    using n by (rule js_rem_nonneg)
  then show ?thesis using assms(1) by (simp add: prevImage_session)
qed

text \<open>After \<open>k > 0\<close> calls of \<open>nextImage\<close> the index is \<open>(i + k) mod n\<close>.\<close>

lemma next_iterate:
  assumes "currentImageIndex s = Finite i" "0 \<le> i" "currentGallery s \<noteq> []"
  shows "currentImageIndex (navigate dec (replicate k Next) s) =
           Finite ((i + int k) mod int (length (currentGallery s))) \<or>
         k = 0"
  using assms
proof (induction k arbitrary: s i)
  case 0
  show ?case by simp
next
  case (Suc k)
  let ?n = "int (length (currentGallery s))"
  let ?t = "state_of (nextImage dec s)"
  let ?j = "(i + 1) mod ?n"
  have j: "currentImageIndex ?t = Finite ?j"
    using Suc.prems by (rule next_index)
  have g: "currentGallery ?t = currentGallery s"
    by (simp add: nextImage_session)
  have pos: "0 \<le> ?j"
    using Suc.prems(3) by simp
  have e: "i + int (Suc k) = (i + 1) + int k"
    by simp
  have m: "(?j + int k) mod ?n = (i + int (Suc k)) mod ?n"
    unfolding e by (rule mod_add_left_eq)
  show ?case
  proof (cases "k = 0")
    case True
    then show ?thesis using j by simp
  next
    case False
    have "currentImageIndex (navigate dec (replicate k Next) ?t) =
            Finite ((?j + int k) mod int (length (currentGallery ?t)))"
      using Suc.IH[OF j pos] Suc.prems(3) g False by simp
    then show ?thesis using g m by simp
  qed
qed

subsection \<open>Cyclic navigation\<close>

text \<open>
  Claim C4. In a session over a gallery of \<open>N \<ge> 1\<close> images whose index \<open>i\<close> is in
  \<open>[0, N)\<close>, one call of \<open>nextImage\<close> moves the index to \<open>i + 1\<close>, or to 0 from the
  last image, and leaves the gallery alone; \<open>k\<close> calls leave \<open>(i + k) mod N\<close>; so
  exactly \<open>N\<close> calls bring \<open>currentImageIndex\<close> back to the value it started from.
  Nothing is asked of the page: the index is assigned before anything is rendered, so
  the law holds with or without the elements, in a browser with or without \<open>decode\<close>.
\<close>

theorem next_cycle:
  assumes "currentGallery s \<noteq> []"
    and "currentImageIndex s = Finite i"
    and "0 \<le> i"
    and "i < int (length (currentGallery s))"
  shows "currentImageIndex (state_of (nextImage dec s)) =
           Finite (if i + 1 = int (length (currentGallery s)) then 0 else i + 1) \<and>
         currentGallery (state_of (nextImage dec s)) = currentGallery s \<and>
         (\<forall>k. currentImageIndex (navigate dec (replicate k Next) s) =
                Finite ((i + int k) mod int (length (currentGallery s)))) \<and>
         currentImageIndex (navigate dec (replicate (length (currentGallery s)) Next) s) =
           currentImageIndex s"
proof (intro conjI allI)
  let ?n = "int (length (currentGallery s))"
  have "currentImageIndex (state_of (nextImage dec s)) = Finite ((i + 1) mod ?n)"
    using assms(2) assms(3) assms(1) by (rule next_index)
  moreover have "(i + 1) mod ?n = (if i + 1 = ?n then 0 else i + 1)"
    using assms(3) assms(4) by simp
  ultimately show "currentImageIndex (state_of (nextImage dec s)) =
      Finite (if i + 1 = ?n then 0 else i + 1)"
    by simp
  show "currentGallery (state_of (nextImage dec s)) = currentGallery s"
    by (simp add: nextImage_session)
  show k: "currentImageIndex (navigate dec (replicate k Next) s) = Finite ((i + int k) mod ?n)"
    for k
  proof (cases "k = 0")
    case True
    then show ?thesis using assms by simp
  next
    case False
    then show ?thesis
      using next_iterate [OF assms(2) assms(3) assms(1), of dec k] by blast
  qed
  show "currentImageIndex (navigate dec (replicate (length (currentGallery s)) Next) s) =
      currentImageIndex s"
    unfolding k using assms by simp
qed

theorem next_cycle_witness:
  "currentGallery ever_open \<noteq> [] \<and> currentImageIndex ever_open = Finite 0 \<and>
   currentImageIndex (state_of (nextImage False ever_open)) = Finite 1 \<and>
   currentImageIndex (navigate False [Next, Next] ever_open) = Finite 2 \<and>
   currentImageIndex (navigate False [Next, Next, Next] ever_open) = Finite 0"
proof -
  have h: "currentGallery ever_open \<noteq> []" "currentImageIndex ever_open = Finite 0"
    "(0::int) \<le> 0" "0 < int (length (currentGallery ever_open))"
    by (simp_all add: ever_open_session)
  note t = next_cycle [OF h, of False]
  have 1: "currentImageIndex (state_of (nextImage False ever_open)) = Finite 1"
    using t by (simp add: ever_open_session)
  have "currentImageIndex (navigate False (replicate 2 Next) ever_open) = Finite 2"
    using t [THEN conjunct2, THEN conjunct2, THEN conjunct1, THEN spec, of 2]
    by (simp add: ever_open_session)
  then have 2: "currentImageIndex (navigate False [Next, Next] ever_open) = Finite 2"
    by (simp add: numeral_2_eq_2)
  have 3: "currentImageIndex (navigate False [Next, Next, Next] ever_open) = Finite 0"
    using t by (simp add: ever_open_session)
  show ?thesis
    using h(1) h(2) 1 2 3 by blast
qed



subsection \<open>Rendering the main image\<close>












subsection \<open>goToImage\<close>


lemma updateGalleryImage_no_image:
  "galleryMainImage s = None \<Longrightarrow> updateGalleryImage dec s = Normal s"
  by (simp add: updateGalleryImage_def)



subsection \<open>A page without the gallery elements\<close>

text \<open>
  Against claim C2 as stated (without the elements every operation is a no-op that
  logs and does not throw): on the page with none of the elements, \<open>closeGallery\<close>
  throws a \<open>TypeError\<close>, and \<open>nextImage\<close>, \<open>prevImage\<close> and \<open>goToImage\<close> print
  nothing and overwrite \<open>currentImageIndex\<close>.
\<close>

theorem absent_hooks_counterexample:
  "console no_hooks = [] \<and>
   currentImageIndex no_hooks = Finite 0 \<and>
   closeGallery no_hooks = Thrown TypeError no_hooks \<and>
   nextImage True no_hooks = Normal (no_hooks\<lparr>currentImageIndex := NaN\<rparr>) \<and>
   prevImage True no_hooks = Normal (no_hooks\<lparr>currentImageIndex := NaN\<rparr>) \<and>
   goToImage True (Finite 1) no_hooks = Normal (no_hooks\<lparr>currentImageIndex := Finite 1\<rparr>)"
  by (simp add: no_hooks_def initial_state_def closeGallery_def nextImage_def prevImage_def
      goToImage_def updateGalleryImage_def)

lemma openGallery_no_modal:
  assumes "galleryModal s = None \<or> galleryTitle s = None"
  shows "\<exists>entry. openGallery dec pd projectKey s = Normal (s\<lparr>console := console s @ [entry]\<rparr>)"
  using assms
  by (auto simp: openGallery_def console_error_def
      split: jsval.splits option.splits images_field.splits)

text \<open>
  Claim C2, amended. When the modal or its title is absent, \<open>openGallery\<close> prints
  exactly one error, returns and changes nothing else, whatever it is called with. When
  the main image is absent, \<open>nextImage\<close>, \<open>prevImage\<close> and \<open>goToImage\<close> return
  without throwing and render nothing, but they print nothing and still assign
  \<open>currentImageIndex\<close>. When the modal is absent, closing by a key, by a click on
  the backdrop or at \<open>pagehide\<close> changes nothing of the page or the session and does not
  throw; the only trace is that the \<open>pagehide\<close> listener, registered once, is gone.
\<close>

theorem absent_hooks:
  "(galleryModal s = None \<or> galleryTitle s = None \<longrightarrow>
      (\<exists>entry. openGallery dec pd projectKey s =
                 Normal (s\<lparr>console := console s @ [entry]\<rparr>))) \<and>
   (galleryMainImage s = None \<longrightarrow>
      nextImage dec s =
        Normal (s\<lparr>currentImageIndex :=
                    js_rem (js_add (currentImageIndex s) (Finite 1))
                           (Finite (int (length (currentGallery s))))\<rparr>) \<and>
      prevImage dec s =
        Normal (s\<lparr>currentImageIndex :=
                    js_rem (js_add (js_sub (currentImageIndex s) (Finite 1))
                                   (Finite (int (length (currentGallery s)))))
                           (Finite (int (length (currentGallery s))))\<rparr>) \<and>
      goToImage dec i s = Normal (s\<lparr>currentImageIndex := i\<rparr>)) \<and>
   (galleryModal s = None \<longrightarrow>
      handle dec pd (KeyDown key) s = Normal s \<and>
      handle dec pd ClickBackdrop s = Normal s \<and>
      handle dec pd PageHide s = Normal (s\<lparr>pagehideListener := False\<rparr>))"
proof (intro conjI impI)
  assume "galleryModal s = None \<or> galleryTitle s = None"
  then show "\<exists>entry. openGallery dec pd projectKey s =
                      Normal (s\<lparr>console := console s @ [entry]\<rparr>)"
    by (rule openGallery_no_modal)
next
  assume "galleryMainImage s = None"
  then show "nextImage dec s =
        Normal (s\<lparr>currentImageIndex :=
                    js_rem (js_add (currentImageIndex s) (Finite 1))
                           (Finite (int (length (currentGallery s))))\<rparr>)"
    by (simp add: nextImage_def updateGalleryImage_no_image)
next
  assume "galleryMainImage s = None"
  then show "prevImage dec s =
        Normal (s\<lparr>currentImageIndex :=
                    js_rem (js_add (js_sub (currentImageIndex s) (Finite 1))
                                   (Finite (int (length (currentGallery s)))))
                           (Finite (int (length (currentGallery s))))\<rparr>)"
    by (simp add: prevImage_def updateGalleryImage_no_image)
next
  assume "galleryMainImage s = None"
  then show "goToImage dec i s = Normal (s\<lparr>currentImageIndex := i\<rparr>)"
    by (simp add: goToImage_def updateGalleryImage_no_image)
next
  assume "galleryModal s = None"
  then show "handle dec pd (KeyDown key) s = Normal s"
    by (simp add: handle_def)
next
  assume "galleryModal s = None"
  then show "handle dec pd ClickBackdrop s = Normal s"
    by (simp add: handle_def)
next
  assume "galleryModal s = None"
  then show "handle dec pd PageHide s = Normal (s\<lparr>pagehideListener := False\<rparr>)"
    by (cases s) (simp add: handle_def closeGallery_def)
qed

theorem absent_hooks_witness:
  "galleryModal no_hooks = None \<and> galleryMainImage no_hooks = None \<and>
   (\<exists>entry. openGallery True portfolioData (JString ''ever'') no_hooks =
              Normal (no_hooks\<lparr>console := [entry]\<rparr>)) \<and>
   nextImage True no_hooks = Normal (no_hooks\<lparr>currentImageIndex := NaN\<rparr>) \<and>
   prevImage True no_hooks = Normal (no_hooks\<lparr>currentImageIndex := NaN\<rparr>) \<and>
   goToImage True (Finite 2) no_hooks = Normal (no_hooks\<lparr>currentImageIndex := Finite 2\<rparr>) \<and>
   handle True portfolioData (KeyDown ''Escape'') no_hooks = Normal no_hooks \<and>
   handle True portfolioData ClickBackdrop no_hooks = Normal no_hooks \<and>
   handle True portfolioData PageHide no_hooks =
     Normal (no_hooks\<lparr>pagehideListener := False\<rparr>)"
  using absent_hooks [of no_hooks True portfolioData "JString ''ever''" "Finite 2" "''Escape''"]
  by (simp add: no_hooks_def initial_state_def)

subsection \<open>openGallery on a key it cannot open\<close>

text \<open>
  Claim C3. When the key is not a string, or no entry of the catalog has it, or its
  entry has no \<open>images\<close>, an \<open>images\<close> that is not an array or an empty one,
  \<open>openGallery\<close> returns without throwing, has printed exactly one error, and every
  other part of the state is as before: the session is not opened in part.
\<close>

theorem openGallery_invalid_input:
  assumes "(\<forall>k. projectKey \<noteq> JString k) \<or>
           (\<exists>k. projectKey = JString k \<and> pd k = None) \<or>
           (\<exists>k p. projectKey = JString k \<and> pd k = Some p \<and>
                  (images p = ImagesMissing \<or> images p = ImagesNotArray \<or>
                   images p = ImagesArray []))"
  shows "\<exists>msg args. openGallery dec pd projectKey s =
                      Normal (s\<lparr>console := console s @ [(msg, args)]\<rparr>)"
  using assms
  by (auto simp: openGallery_def console_error_def
      split: jsval.splits option.splits images_field.splits)

theorem openGallery_invalid_input_witness:
  "portfolioData ''does-not-exist'' = None \<and>
   (\<exists>msg args. openGallery True portfolioData (JString ''does-not-exist'') page =
                 Normal (page\<lparr>console := [(msg, args)]\<rparr>)) \<and>
   (\<exists>msg args. openGallery True portfolioData (JNumber (Finite 3)) page =
                 Normal (page\<lparr>console := [(msg, args)]\<rparr>)) \<and>
   (\<exists>msg args. openGallery True (\<lambda>k. Some \<lparr>title = Some ''Empty'', images = ImagesArray []\<rparr>)
                   (JString ''empty'') page =
                 Normal (page\<lparr>console := [(msg, args)]\<rparr>))"
proof -
  have none: "portfolioData ''does-not-exist'' = None"
    by (simp add: portfolioData_def)
  have c: "console page = []"
    by (simp add: page_def initial_state_def)
  show ?thesis
    using none
      openGallery_invalid_input [of "JString ''does-not-exist''" portfolioData True page]
      openGallery_invalid_input [of "JNumber (Finite 3)" portfolioData True page]
      openGallery_invalid_input [of "JString ''empty''"
        "\<lambda>k. Some \<lparr>title = Some ''Empty'', images = ImagesArray []\<rparr>" True page]
    by (simp add: c)
qed

subsection \<open>Opening\<close>











subsection \<open>Closing\<close>

text \<open>
  Claim C9. From an open session, after any sequence of \<open>nextImage\<close>, \<open>prevImage\<close>
  and \<open>goToImage\<close> calls (with any indices), the modal is still open, and
  \<open>closeGallery\<close> returns without throwing: the modal has lost the class \<open>active\<close> and
  the body's \<open>overflow\<close> is reset to the empty string, nothing else being touched. The
  close button, the backdrop and the Escape key do exactly that. So does the \<open>pagehide\<close>
  listener the first time the event fires, and then it is gone; a later \<open>pagehide\<close>
  changes nothing.
\<close>

theorem close_releases_lock:
  assumes "galleryModal s = Some True"
  shows "galleryModal (navigate dec ns s) = Some True \<and>
         closeGallery (navigate dec ns s) =
           Normal ((navigate dec ns s)\<lparr>galleryModal := Some False, bodyOverflow := []\<rparr>) \<and>
         handle dec pd ClickClose (navigate dec ns s) =
           Normal ((navigate dec ns s)\<lparr>galleryModal := Some False, bodyOverflow := []\<rparr>) \<and>
         handle dec pd ClickBackdrop (navigate dec ns s) =
           Normal ((navigate dec ns s)\<lparr>galleryModal := Some False, bodyOverflow := []\<rparr>) \<and>
         handle dec pd (KeyDown ''Escape'') (navigate dec ns s) =
           Normal ((navigate dec ns s)\<lparr>galleryModal := Some False, bodyOverflow := []\<rparr>) \<and>
         handle dec pd PageHide (navigate dec ns s) =
           Normal (if pagehideListener s
                   then (navigate dec ns s)\<lparr>galleryModal := Some False, bodyOverflow := [],
                                             pagehideListener := False\<rparr>
                   else navigate dec ns s)"
proof -
  have m: "galleryModal (navigate dec ns s) = Some True"
    using assms by (simp add: navigate_session)
  have l: "pagehideListener (navigate dec ns s) = pagehideListener s"
    by (simp add: navigate_session)
  show ?thesis
    using m l by (simp add: closeGallery_def handle_def)
qed

theorem close_releases_lock_witness:
  "galleryModal ever_open = Some True \<and> pagehideListener ever_open \<and>
   bodyOverflow (navigate True [Next, GoTo (Finite 7), Prev, Prev] ever_open) = ''hidden'' \<and>
   galleryModal (state_of (closeGallery
     (navigate True [Next, GoTo (Finite 7), Prev, Prev] ever_open))) = Some False \<and>
   bodyOverflow (state_of (closeGallery
     (navigate True [Next, GoTo (Finite 7), Prev, Prev] ever_open))) = [] \<and>
   bodyOverflow (state_of (handle True portfolioData PageHide
     (navigate True [Next, GoTo (Finite 7), Prev, Prev] ever_open))) = [] \<and>
   handle True portfolioData PageHide (state_of (handle True portfolioData PageHide
     (navigate True [Next, GoTo (Finite 7), Prev, Prev] ever_open))) =
     handle True portfolioData PageHide
       (navigate True [Next, GoTo (Finite 7), Prev, Prev] ever_open)"
proof -
  let ?u = "navigate True [Next, GoTo (Finite 7), Prev, Prev] ever_open"
  have o: "galleryModal ever_open = Some True" "pagehideListener ever_open"
    "bodyOverflow ever_open = ''hidden''"
    by (simp_all add: ever_open_session ever_open_lock)
  note t = close_releases_lock [OF o(1), of True "[Next, GoTo (Finite 7), Prev, Prev]"
      portfolioData]
  have c: "closeGallery ?u = Normal (?u\<lparr>galleryModal := Some False, bodyOverflow := []\<rparr>)"
    using t by blast
  have p: "handle True portfolioData PageHide ?u =
      Normal (?u\<lparr>galleryModal := Some False, bodyOverflow := [], pagehideListener := False\<rparr>)"
    using t o(2) by simp
  have b: "bodyOverflow ?u = ''hidden''"
    unfolding navigate_session by (rule o(3))
  have again: "handle True portfolioData PageHide
      (?u\<lparr>galleryModal := Some False, bodyOverflow := [], pagehideListener := False\<rparr>) =
      Normal (?u\<lparr>galleryModal := Some False, bodyOverflow := [], pagehideListener := False\<rparr>)"
    by (simp add: handle_def)
  show ?thesis
    unfolding p c using o(1) o(2) b again by simp
qed

subsection \<open>The empty gallery\<close>

lemma closeGallery_gallery:
  "currentGallery (state_of (closeGallery s)) = currentGallery s"
  by (simp add: closeGallery_def split: option.splits)

lemma done_swap_session:
  "currentGallery (state_of (done_swap nextSrc s)) = currentGallery s"
  "currentImageIndex (state_of (done_swap nextSrc s)) = currentImageIndex s"
  "galleryModal (state_of (done_swap nextSrc s)) = galleryModal s"
  "bodyOverflow (state_of (done_swap nextSrc s)) = bodyOverflow s"
  by (simp_all add: done_swap_def Let_def split: option.splits)

lemma settle_session:
  "currentGallery (state_of (settle ok nextSrc s)) = currentGallery s"
  "currentImageIndex (state_of (settle ok nextSrc s)) = currentImageIndex s"
  "galleryModal (state_of (settle ok nextSrc s)) = galleryModal s"
  "bodyOverflow (state_of (settle ok nextSrc s)) = bodyOverflow s"
  by (simp_all add: settle_def done_swap_def Let_def split: option.splits)

text \<open>Only a click on a project can replace the gallery.\<close>

lemma handle_gallery:
  assumes "\<forall>a. ev \<noteq> ClickProject a"
  shows "currentGallery (state_of (handle dec pd ev s)) = currentGallery s"
proof (cases ev)
  case (ClickProject a)
  then show ?thesis using assms by simp
next
  case ClickClose
  then show ?thesis by (simp add: handle_def closeGallery_gallery)
next
  case ClickNext
  then show ?thesis by (simp add: handle_def nextImage_session)
next
  case ClickPrev
  then show ?thesis by (simp add: handle_def prevImage_session)
next
  case ClickBackdrop
  then show ?thesis by (simp add: handle_def closeGallery_gallery split: option.splits)
next
  case (ClickThumbnail k)
  then show ?thesis by (simp add: handle_def goToImage_session split: option.splits)
next
  case (KeyDown key)
  then show ?thesis
    by (simp add: handle_def closeGallery_gallery nextImage_session prevImage_session)
next
  case PageHide
  then show ?thesis by (simp add: handle_def closeGallery_def split: option.splits)
next
  case (DecodeSettled k ok)
  then show ?thesis by (simp add: handle_def settle_session)
qed

lemma run_gallery:
  assumes "\<forall>a. ClickProject a \<notin> set evs"
  shows "currentGallery (run dec pd evs s) = currentGallery s"
  using assms
proof (induction evs arbitrary: s)
  case Nil
  show ?case by simp
next
  case (Cons ev evs)
  have "\<forall>a. ev \<noteq> ClickProject a"
    using Cons.prems by auto
  then have "currentGallery (state_of (handle dec pd ev s)) = currentGallery s"
    by (rule handle_gallery)
  moreover have "\<forall>a. ClickProject a \<notin> set evs"
    using Cons.prems by auto
  ultimately show ?case
    using Cons.IH by simp
qed

lemma empty_gallery_next:
  "currentGallery s = [] \<Longrightarrow> currentImageIndex (state_of (nextImage dec s)) = NaN"
  by (cases "currentImageIndex s") (simp_all add: nextImage_session)

lemma empty_gallery_prev:
  "currentGallery s = [] \<Longrightarrow> currentImageIndex (state_of (prevImage dec s)) = NaN"
  by (cases "currentImageIndex s") (simp_all add: prevImage_session)

lemma in_range_next:
  assumes "index_in_range s"
  shows "index_in_range (state_of (nextImage dec s))"
proof -
  obtain i where i: "currentImageIndex s = Finite i" "0 \<le> i" "i < int (length (currentGallery s))"
    using assms by (auto simp: index_in_range_def split: jsnum.splits)
  then have ne: "currentGallery s \<noteq> []"
    by auto
  have "currentImageIndex (state_of (nextImage dec s)) =
          Finite ((i + 1) mod int (length (currentGallery s)))"
    using i(1) i(2) ne by (rule next_index)
  then show ?thesis
    using ne by (simp add: index_in_range_def nextImage_session)
qed

lemma in_range_prev:
  assumes "index_in_range s"
  shows "index_in_range (state_of (prevImage dec s))"
proof -
  obtain i where i: "currentImageIndex s = Finite i" "0 \<le> i" "i < int (length (currentGallery s))"
    using assms by (auto simp: index_in_range_def split: jsnum.splits)
  then have ne: "currentGallery s \<noteq> []"
    by auto
  have "currentImageIndex (state_of (prevImage dec s)) =
          Finite ((i - 1) mod int (length (currentGallery s)))"
    using i(1) i(2) ne by (rule prev_index)
  then show ?thesis
    using ne by (simp add: index_in_range_def prevImage_session)
qed

text \<open>
  Claim C10. The script starts with \<open>currentGallery = []\<close>, and the gallery stays empty
  as long as no project has been clicked. On an empty gallery \<open>nextImage\<close> and
  \<open>prevImage\<close> take the remainder by zero and leave \<open>NaN\<close> in \<open>currentImageIndex\<close>,
  which is not an index of the gallery. On a gallery that is not empty, an index that
  is in range before the call is in range after it.
\<close>

theorem empty_gallery_gives_NaN:
  "currentGallery (initial_state modal ttl img counter thumbs) = [] \<and>
   ((\<forall>a. ClickProject a \<notin> set evs) \<longrightarrow>
      currentGallery (run dec pd evs (initial_state modal ttl img counter thumbs)) = []) \<and>
   (currentGallery s = [] \<longrightarrow>
      currentImageIndex (state_of (nextImage dec s)) = NaN \<and>
      currentImageIndex (state_of (prevImage dec s)) = NaN \<and>
      \<not> index_in_range (state_of (nextImage dec s)) \<and>
      \<not> index_in_range (state_of (prevImage dec s))) \<and>
   (currentGallery s \<noteq> [] \<and> index_in_range s \<longrightarrow>
      index_in_range (state_of (nextImage dec s)) \<and>
      index_in_range (state_of (prevImage dec s)))"
proof (intro conjI impI)
  show e: "currentGallery (initial_state modal ttl img counter thumbs) = []"
    by (simp add: initial_state_def)
  assume "\<forall>a. ClickProject a \<notin> set evs"
  then show "currentGallery (run dec pd evs (initial_state modal ttl img counter thumbs)) = []"
    using e by (simp add: run_gallery)
next
  assume "currentGallery s = []"
  then show "currentImageIndex (state_of (nextImage dec s)) = NaN"
    by (rule empty_gallery_next)
next
  assume "currentGallery s = []"
  then show "currentImageIndex (state_of (prevImage dec s)) = NaN"
    by (rule empty_gallery_prev)
next
  assume "currentGallery s = []"
  then show "\<not> index_in_range (state_of (nextImage dec s))"
    by (simp add: index_in_range_def empty_gallery_next)
next
  assume "currentGallery s = []"
  then show "\<not> index_in_range (state_of (prevImage dec s))"
    by (simp add: index_in_range_def empty_gallery_prev)
next
  assume "currentGallery s \<noteq> [] \<and> index_in_range s"
  then show "index_in_range (state_of (nextImage dec s))"
    by (simp add: in_range_next)
next
  assume "currentGallery s \<noteq> [] \<and> index_in_range s"
  then show "index_in_range (state_of (prevImage dec s))"
    by (simp add: in_range_prev)
qed

theorem empty_gallery_gives_NaN_witness:
  "currentGallery page = [] \<and>
   currentGallery (run True portfolioData [ClickNext, KeyDown ''Escape'', ClickThumbnail 0] page) = [] \<and>
   currentImageIndex (state_of (nextImage True page)) = NaN \<and>
   currentImageIndex (state_of (prevImage True page)) = NaN \<and>
   \<not> index_in_range (state_of (nextImage True page)) \<and>
   \<not> index_in_range (state_of (prevImage True page)) \<and>
   currentGallery ever_open \<noteq> [] \<and> index_in_range ever_open \<and>
   index_in_range (state_of (nextImage True ever_open)) \<and>
   index_in_range (state_of (prevImage True ever_open))"
proof -
  have p: "page = initial_state (Some False) (Some [])
            (Some \<lparr>src_attr = None, fetchpriority = None, decoding = None\<rparr>)
            (Some []) (Some [])"
    by (simp add: page_def)
  have r: "index_in_range ever_open"
    by (simp add: index_in_range_def ever_open_session)
  show ?thesis
    using r
      empty_gallery_gives_NaN [of "Some False" "Some []"
        "Some \<lparr>src_attr = None, fetchpriority = None, decoding = None\<rparr>" "Some []" "Some []"
        "[ClickNext, KeyDown ''Escape'', ClickThumbnail 0]" True portfolioData page]
      empty_gallery_gives_NaN [of "Some False" "Some []"
        "Some \<lparr>src_attr = None, fetchpriority = None, decoding = None\<rparr>" "Some []" "Some []"
        "[]" True portfolioData ever_open]
    unfolding p [symmetric]
    by (simp add: ever_open_session)
qed

subsection \<open>The scroll lock is held only while the modal is open\<close>

lemma createThumbnails_session:
  "galleryModal (state_of (createThumbnails s)) = galleryModal s"
  "bodyOverflow (state_of (createThumbnails s)) = bodyOverflow s"
  by (simp_all add: createThumbnails_def split: option.splits)

lemma and_then_createThumbnails:
  "galleryModal (state_of (and_then r createThumbnails)) = galleryModal (state_of r)"
  "bodyOverflow (state_of (and_then r createThumbnails)) = bodyOverflow (state_of r)"
  by (cases r; simp add: createThumbnails_session)+

text \<open>\<open>openGallery\<close> either opens the modal or leaves modal and lock as they were.\<close>

lemma openGallery_lock:
  "galleryModal (state_of (openGallery dec pd projectKey s)) = Some True \<or>
   galleryModal (state_of (openGallery dec pd projectKey s)) = galleryModal s \<and>
   bodyOverflow (state_of (openGallery dec pd projectKey s)) = bodyOverflow s"
  by (simp add: openGallery_def console_error_def and_then_createThumbnails
      updateGalleryImage_session
      split: jsval.splits option.splits images_field.splits)

lemma closeGallery_lock:
  "galleryModal (state_of (closeGallery s)) = Some True \<or>
   bodyOverflow (state_of (closeGallery s)) = [] \<or>
   state_of (closeGallery s) = s"
  by (simp add: closeGallery_def split: option.splits)

lemma handle_lock:
  assumes "galleryModal s = Some True \<or> bodyOverflow s = []"
  shows "galleryModal (state_of (handle dec pd ev s)) = Some True \<or>
         bodyOverflow (state_of (handle dec pd ev s)) = []"
proof (cases ev)
  case (ClickProject attr)
  show ?thesis
    using assms openGallery_lock [of dec pd "JString (the attr)" s]
    by (auto simp: ClickProject handle_def split: option.splits)
next
  case ClickClose
  then show ?thesis
    using assms closeGallery_lock [of s] by (auto simp: handle_def)
next
  case ClickNext
  then show ?thesis
    using assms by (simp add: handle_def nextImage_session)
next
  case ClickPrev
  then show ?thesis
    using assms by (simp add: handle_def prevImage_session)
next
  case ClickBackdrop
  then show ?thesis
    using assms closeGallery_lock [of s] by (auto simp: handle_def split: option.splits)
next
  case (ClickThumbnail k)
  then show ?thesis
    using assms by (simp add: handle_def goToImage_session split: option.splits)
next
  case (KeyDown key)
  then show ?thesis
    using assms closeGallery_lock [of s]
    by (auto simp: handle_def nextImage_session prevImage_session)
next
  case PageHide
  then show ?thesis
    using assms by (auto simp: handle_def closeGallery_def split: option.splits)
next
  case (DecodeSettled k ok)
  then show ?thesis
    using assms by (simp add: handle_def settle_session)
qed

lemma run_lock:
  assumes "galleryModal s = Some True \<or> bodyOverflow s = []"
  shows "galleryModal (run dec pd evs s) = Some True \<or> bodyOverflow (run dec pd evs s) = []"
  using assms
proof (induction evs arbitrary: s)
  case Nil
  then show ?case by simp
next
  case (Cons ev evs)
  have "galleryModal (state_of (handle dec pd ev s)) = Some True \<or>
        bodyOverflow (state_of (handle dec pd ev s)) = []"
    using Cons.prems by (rule handle_lock)
  then show ?case
    using Cons.IH by simp
qed

text \<open>
  Claim C8. In every state the page reaches from its start by any sequence of
  listener calls: while the modal is open, Escape calls \<open>closeGallery\<close>, the left arrow
  \<open>prevImage\<close>, the right arrow \<open>nextImage\<close>, and a click on the backdrop
  \<open>closeGallery\<close>; while it is not open, every key and a click on the backdrop return
  the state as it was. The key listener tests the class \<open>active\<close> itself; the backdrop
  listener does not, and there \<open>closeGallery\<close> rewrites what a closed page already has.
\<close>

theorem keys_and_backdrop_only_while_open:
  assumes "s = run dec pd evs (initial_state modal ttl img counter thumbs)"
  shows "(galleryModal s = Some True \<longrightarrow>
            handle dec pd (KeyDown ''Escape'') s = closeGallery s \<and>
            handle dec pd (KeyDown ''ArrowLeft'') s = prevImage dec s \<and>
            handle dec pd (KeyDown ''ArrowRight'') s = nextImage dec s \<and>
            handle dec pd ClickBackdrop s = closeGallery s) \<and>
         (galleryModal s \<noteq> Some True \<longrightarrow>
            handle dec pd (KeyDown key) s = Normal s \<and>
            handle dec pd ClickBackdrop s = Normal s)"
proof (intro conjI impI)
  assume "galleryModal s = Some True"
  then show "handle dec pd (KeyDown ''Escape'') s = closeGallery s"
    and "handle dec pd (KeyDown ''ArrowLeft'') s = prevImage dec s"
    and "handle dec pd (KeyDown ''ArrowRight'') s = nextImage dec s"
    and "handle dec pd ClickBackdrop s = closeGallery s"
    by (simp_all add: handle_def)
next
  assume "galleryModal s \<noteq> Some True"
  then show "handle dec pd (KeyDown key) s = Normal s"
    by (simp add: handle_def)
next
  assume closed: "galleryModal s \<noteq> Some True"
  have "bodyOverflow (initial_state modal ttl img counter thumbs) = []"
    by (simp add: initial_state_def)
  then have "galleryModal s = Some True \<or> bodyOverflow s = []"
    unfolding assms by (simp add: run_lock)
  then have unlocked: "bodyOverflow s = []"
    using closed by simp
  show "handle dec pd ClickBackdrop s = Normal s"
  proof (cases "galleryModal s")
    case None
    then show ?thesis by (simp add: handle_def)
  next
    case (Some a)
    then have "galleryModal s = Some False"
      using closed by simp
    then have "s\<lparr>galleryModal := Some False, bodyOverflow := []\<rparr> = s"
      using unlocked by (cases s) simp
    then show ?thesis
      using Some by (simp add: handle_def closeGallery_def)
  qed
qed

lemma run_open_ever:
  "run False portfolioData [ClickProject (Some ''ever'')] page = ever_open"
  by (simp add: handle_def ever_open_def page_def initial_state_def portfolioData_def)

theorem keys_and_backdrop_only_while_open_witness:
  "galleryModal (run False portfolioData [ClickProject (Some ''ever'')] page) = Some True \<and>
   handle False portfolioData (KeyDown ''ArrowRight'')
     (run False portfolioData [ClickProject (Some ''ever'')] page) =
     nextImage False ever_open \<and>
   galleryModal (run False portfolioData [] page) = Some False \<and>
   handle False portfolioData (KeyDown ''ArrowRight'') (run False portfolioData [] page) =
     Normal page \<and>
   handle False portfolioData ClickBackdrop (run False portfolioData [] page) = Normal page"
proof -
  have p: "page = initial_state (Some False) (Some [])
            (Some \<lparr>src_attr = None, fetchpriority = None, decoding = None\<rparr>)
            (Some []) (Some [])"
    by (simp add: page_def)
  have c: "galleryModal page = Some False"
    by (simp add: page_def initial_state_def)
  note t = keys_and_backdrop_only_while_open [where dec = False and pd = portfolioData
      and modal = "Some False" and ttl = "Some []"
      and img = "Some \<lparr>src_attr = None, fetchpriority = None, decoding = None\<rparr>"
      and counter = "Some []" and thumbs = "Some []", folded p, OF refl]
  show ?thesis
    using t [of "[ClickProject (Some ''ever'')]" "''ArrowRight''"]
      t [of "[]" "''ArrowRight''"]
    unfolding run_open_ever
    by (simp add: c ever_open_session)
qed

end
